theory Spec2Isabelle
  imports Complex_Main
begin

section \<open>Python values used by the quality engine\<close>

text \<open>
  A Python \<open>str\<close> is the sequence of its Unicode code points, so \<open>len\<close> is \<open>length\<close>.
  ASCII literals of the source are written with \<open>lit\<close>; the pictographs that open the
  messages of \<open>scorer.py\<close> are given by their code point.
\<close>

type_synonym pystr = "nat list"

definition lit :: "string \<Rightarrow> pystr" where
  "lit s = map of_char s"

text \<open>
  A Python number is an \<open>int\<close> or a \<open>float\<close>. A float is modelled by the real number it
  denotes: rounding, infinities and NaN are outside the model, and so are integers too
  large to convert to a float.
\<close>

datatype pynum = PyInt int | PyFloat real

fun val :: "pynum \<Rightarrow> real" where
  "val (PyInt n) = of_int n"
| "val (PyFloat x) = x"

text \<open>\<open>d.get(k, default)\<close> on a dictionary.\<close>

definition py_get :: "('k \<rightharpoonup> 'v) \<Rightarrow> 'k \<Rightarrow> 'v \<Rightarrow> 'v" where
  "py_get d k dflt = (case d k of None \<Rightarrow> dflt | Some v \<Rightarrow> v)"

text \<open>
  The feature dictionary (\<open>Dict[str, any]\<close> in the source) with the numeric entries
  \<open>word_count\<close>, \<open>sentence_count\<close>, \<open>flesch_reading_ease\<close> and \<open>avg_word_length\<close>.
  Its keys are fixed ASCII names and are kept as HOL strings.
\<close>

type_synonym features = "string \<rightharpoonup> pynum"

section \<open>scorer.py: thin content and the composite score\<close>

text \<open>
  \<open>is_thin_content(word_count, threshold=500)\<close>: the optional argument is \<open>None\<close> when the
  caller leaves it out.
\<close>

definition is_thin_content :: "int \<Rightarrow> int option \<Rightarrow> bool" where
  "is_thin_content word_count threshold =
     (word_count < (case threshold of None \<Rightarrow> 500 | Some t \<Rightarrow> t))"

text \<open>
  \<open>calculate_composite_score\<close>. The division \<open>/\<close> is Python's true division, which
  gives a float for integer operands as well. \<open>min(total, 100)\<close> returns its first
  argument unless the second is smaller, so the integer \<open>100\<close> is returned only when
  \<open>total\<close> exceeds it.
\<close>

definition calculate_composite_score :: "features \<Rightarrow> pynum" where
  "calculate_composite_score features =
     (let word_count = py_get features ''word_count'' (PyInt 0);
          sentence_count = py_get features ''sentence_count'' (PyInt 0);
          flesch = py_get features ''flesch_reading_ease'' (PyInt 0);
          avg_word_length = py_get features ''avg_word_length'' (PyInt 0);
          word_score = min (val word_count / 2000) 1 * 30;
          readability_score = min (max (val flesch) 0 / 100) 1 * 40;
          sentence_score = min (val sentence_count / 50) 1 * 20;
          word_length_score = min (val avg_word_length / 6) 1 * 10;
          total = word_score + readability_score + sentence_score + word_length_score
      in if 100 < total then PyInt 100 else PyFloat total)"

section \<open>scorer.py: interpretation of a quality label\<close>

text \<open>
  Exceptions are values. \<open>OtherException name\<close> stands for any other class derived from
  Python's \<open>Exception\<close>.
\<close>

datatype py_exception =
  FileNotFoundError | KeyError | IndexError | ValueError | OtherException string

text \<open>\<open>d[k]\<close> on a dictionary raises \<open>KeyError\<close> for a missing key.\<close>

definition py_index :: "('k \<rightharpoonup> 'v) \<Rightarrow> 'k \<Rightarrow> py_exception + 'v" where
  "py_index d k = (case d k of None \<Rightarrow> Inl KeyError | Some v \<Rightarrow> Inr v)"

text \<open>Decimal digits of a natural number and \<open>str\<close> of an integer.\<close>

fun str_nat :: "nat \<Rightarrow> pystr" where
  "str_nat n = (if n < 10 then [48 + n] else str_nat (n div 10) @ [48 + n mod 10])"

definition str_int :: "int \<Rightarrow> pystr" where
  "str_int n = (if n < 0 then lit ''-'' @ str_nat (nat (- n)) else str_nat (nat n))"

text \<open>
  \<open>"{0}".format(v)\<close>. For an integer it is its decimal notation. For a float it is the
  shortest notation that reads back as the same float, which depends on the binary
  representation; it is the parameter \<open>float_repr\<close>.
\<close>

definition format_plain :: "(real \<Rightarrow> pystr) \<Rightarrow> pynum \<Rightarrow> pystr" where
  "format_plain float_repr v = (case v of PyInt n \<Rightarrow> str_int n | PyFloat x \<Rightarrow> float_repr x)"

text \<open>
  \<open>"{0:.1f}".format(v)\<close>: the value (an integer is converted to a float first) rounded
  to one decimal, a tie going to the even digit, with the sign of the value kept even when
  the digits are all zero.
\<close>

definition round_half_even :: "real \<Rightarrow> int" where
  "round_half_even y =
     (let fl = \<lfloor>y\<rfloor>; fr = y - of_int fl
      in if fr < 1 / 2 then fl else if 1 / 2 < fr then fl + 1
         else if even fl then fl else fl + 1)"

definition format_1f :: "pynum \<Rightarrow> pystr" where
  "format_1f v =
     (let x = val v; t = nat (round_half_even (\<bar>x\<bar> * 10))
      in (if x < 0 then lit ''-'' else []) @ str_nat (t div 10) @ lit ''.'' @ str_nat (t mod 10))"

record interpretation_dict =
  emoji :: pystr
  message :: pystr
  description :: pystr
  recommendations :: "pystr list"

definition interpretations :: "pystr \<rightharpoonup> interpretation_dict" where
  "interpretations =
     [lit ''High'' \<mapsto>
        \<lparr>emoji = [0x1F7E2],
         message = lit ''Excellent content quality!'',
         description = lit ''This content has strong indicators of high quality with good length and readability.'',
         recommendations = []\<rparr>,
      lit ''Medium'' \<mapsto>
        \<lparr>emoji = [0x1F7E1],
         message = lit ''Good content, but room for improvement'',
         description = lit ''This content meets basic quality standards but could be enhanced.'',
         recommendations = []\<rparr>,
      lit ''Low'' \<mapsto>
        \<lparr>emoji = [0x1F534],
         message = lit ''Content needs significant improvement'',
         description = lit ''This content falls short of quality standards.'',
         recommendations = []\<rparr>,
      lit ''Unknown'' \<mapsto>
        \<lparr>emoji = [0x26AA],
         message = lit ''Unable to assess quality'',
         description = lit ''Quality assessment unavailable.'',
         recommendations = []\<rparr>]"

text \<open>The six recommendation texts; the argument is the formatted number.\<close>

definition msg_increase_length :: "pystr \<Rightarrow> pystr" where
  "msg_increase_length n =
     0x1F4DD # lit '' Increase content length (current: '' @ n
       @ lit '' words, recommended: 500+ words)''"

definition msg_consider_expanding :: "pystr \<Rightarrow> pystr" where
  "msg_consider_expanding n =
     0x1F4DD # lit '' Consider expanding content (current: '' @ n
       @ lit '' words, optimal: 1500+ words)''"

definition msg_simplify_language :: "pystr \<Rightarrow> pystr" where
  "msg_simplify_language x =
     0x1F4D6 # lit '' Simplify language for better readability (Flesch score: '' @ x
       @ lit ''/100)''"

definition msg_improve_readability :: "pystr \<Rightarrow> pystr" where
  "msg_improve_readability x =
     0x1F4D6 # lit '' Improve readability with simpler sentences (Flesch score: '' @ x
       @ lit ''/100)''"

definition msg_review_structure :: pystr where
  "msg_review_structure = 0x2728 # lit '' Review content structure and add more value''"

definition msg_focus_intent :: pystr where
  "msg_focus_intent = 0x1F3AF # lit '' Focus on user intent and comprehensive coverage''"

text \<open>
  \<open>get_quality_score_interpretation\<close>. The list \<open>recommendations\<close> of the source is
  appended to in three steps; \<open>recs1\<close>, \<open>recs2\<close> and \<open>recs3\<close> are its contents after
  each of them. The copy of the template has its \<open>recommendations\<close> entry replaced.
\<close>

definition get_quality_score_interpretation ::
  "(real \<Rightarrow> pystr) \<Rightarrow> pystr \<Rightarrow> features \<Rightarrow> py_exception + interpretation_dict" where
  "get_quality_score_interpretation float_repr quality features =
     (let word_count = py_get features ''word_count'' (PyInt 0);
          flesch = py_get features ''flesch_reading_ease'' (PyInt 0)
      in case py_index interpretations (lit ''Unknown'') of
           Inl e \<Rightarrow> Inl e
         | Inr unknown \<Rightarrow>
             (let result = py_get interpretations quality unknown;
                  recs0 = [];
                  recs1 =
                    (if val word_count < 500
                     then recs0 @ [msg_increase_length (format_plain float_repr word_count)]
                     else if val word_count < 1500
                     then recs0 @ [msg_consider_expanding (format_plain float_repr word_count)]
                     else recs0);
                  recs2 =
                    (if val flesch < 30
                     then recs1 @ [msg_simplify_language (format_1f flesch)]
                     else if val flesch < 50
                     then recs1 @ [msg_improve_readability (format_1f flesch)]
                     else recs1);
                  recs3 =
                    (if quality = lit ''Low''
                     then (recs2 @ [msg_review_structure]) @ [msg_focus_intent]
                     else recs2)
              in Inr (result\<lparr>recommendations := recs3\<rparr>)))"

section \<open>features.py: text normalisation and the basic features\<close>

text \<open>
  The whitespace code points: those for which \<open>str.isspace\<close> holds. The pattern \<open>\s\<close>
  of \<open>re\<close> on a \<open>str\<close>, \<open>str.strip()\<close> and \<open>str.split()\<close> all use this one set.
\<close>

definition is_space :: "nat \<Rightarrow> bool" where
  "is_space c =
     ((0x09 \<le> c \<and> c \<le> 0x0D) \<or> (0x1C \<le> c \<and> c \<le> 0x20) \<or> c = 0x85 \<or> c = 0xA0
      \<or> c = 0x1680 \<or> (0x2000 \<le> c \<and> c \<le> 0x200A) \<or> c = 0x2028 \<or> c = 0x2029
      \<or> c = 0x202F \<or> c = 0x205F \<or> c = 0x3000)"

text \<open>
  \<open>re.sub(r'\s+', ' ', text)\<close>: scanning from the left, each maximal run of whitespace is
  replaced by one space. \<open>in_run\<close> says that the run the scan is in has been replaced.
\<close>

fun sub_ws :: "bool \<Rightarrow> pystr \<Rightarrow> pystr" where
  "sub_ws in_run [] = []"
| "sub_ws in_run (c # cs) =
     (if is_space c then (if in_run then sub_ws True cs else 0x20 # sub_ws True cs)
      else c # sub_ws False cs)"

text \<open>\<open>text.strip()\<close> removes the whitespace at both ends.\<close>

definition py_strip :: "pystr \<Rightarrow> pystr" where
  "py_strip s = rev (dropWhile is_space (rev (dropWhile is_space s)))"

text \<open>
  \<open>text.split()\<close> without arguments: the maximal runs of non-whitespace, from the left.
  \<open>cur\<close> holds the characters of the token being read, last one first.
\<close>

fun split_from :: "pystr \<Rightarrow> pystr \<Rightarrow> pystr list" where
  "split_from cur [] = (if cur = [] then [] else [rev cur])"
| "split_from cur (c # cs) =
     (if is_space c then (if cur = [] then split_from [] cs else rev cur # split_from [] cs)
      else split_from (c # cur) cs)"

definition py_split :: "pystr \<Rightarrow> pystr list" where
  "py_split s = split_from [] s"

text \<open>
  What the engine calls and this repository does not define: \<open>str.lower\<close> (the Unicode
  case mapping), \<open>nltk.sent_tokenize\<close>, \<open>textstat.flesch_reading_ease\<close>, the fitted
  \<open>TfidfVectorizer\<close> (for a \<open>min_df\<close> and the documents: the feature names and the dense
  matrix, one row of weights per document, or an exception), \<open>numpy\<close>'s \<open>argsort\<close> and
  the \<open>encode\<close> method of the sentence-embedding model. They are parameters of the model;
  nothing is assumed about them unless a theorem says so.
\<close>

record externals =
  str_lower :: "pystr \<Rightarrow> pystr"
  sent_tokenize :: "pystr \<Rightarrow> pystr list"
  flesch_reading_ease :: "pystr \<Rightarrow> real"
  tfidf_fit_transform :: "nat \<Rightarrow> pystr list \<Rightarrow> py_exception + (pystr list \<times> real list list)"
  argsort :: "real list \<Rightarrow> nat list"
  encode :: "pystr list \<Rightarrow> real list list"

definition clean_text :: "externals \<Rightarrow> pystr \<Rightarrow> pystr" where
  "clean_text ext text = py_strip (sub_ws False (str_lower ext text))"

text \<open>\<open>numpy.mean\<close> of a list of lengths, taken where the list is not empty.\<close>

definition mean :: "nat list \<Rightarrow> real" where
  "mean ns = real (sum_list ns) / real (length ns)"

text \<open>
  \<open>extract_basic_features\<close>. A string is true when it is not empty, and so is a list.
  The tokenizer and the readability formula are pure functions here; the download done
  by \<open>ensure_nltk_data\<close> is not modelled.
\<close>

definition extract_basic_features :: "externals \<Rightarrow> pystr \<Rightarrow> features" where
  "extract_basic_features ext text =
     (let clean = clean_text ext text;
          word_count = length (py_split clean);
          sentence_count = (if clean \<noteq> [] then length (sent_tokenize ext clean) else 0);
          flesch_score =
            (if clean \<noteq> [] then PyFloat (flesch_reading_ease ext clean) else PyInt 0);
          words = py_split clean;
          avg_word_length = (if words \<noteq> [] then mean (map length words) else 0)
      in [''word_count'' \<mapsto> PyInt (int word_count),
          ''sentence_count'' \<mapsto> PyInt (int sentence_count),
          ''flesch_reading_ease'' \<mapsto> flesch_score,
          ''avg_word_length'' \<mapsto> PyFloat avg_word_length])"

text \<open>
  The number of whitespace-delimited tokens of a string, counted without splitting it:
  the positions that hold a non-whitespace character and come first or after a
  whitespace character.
\<close>

definition token_count :: "pystr \<Rightarrow> nat" where
  "token_count s =
     length (filter (\<lambda>(p, c). is_space p \<and> \<not> is_space c) (zip (0x20 # s) s))"

section \<open>features.py: keywords and similarity\<close>

text \<open>\<open>xs[i]\<close> for an index that is not negative: \<open>IndexError\<close> beyond the end.\<close>

definition py_nth :: "'a list \<Rightarrow> nat \<Rightarrow> py_exception + 'a" where
  "py_nth xs i = (if i < length xs then Inr (xs ! i) else Inl IndexError)"

text \<open>
  The slice \<open>xs[k:]\<close>: a negative \<open>k\<close> counts from the end and is cut off at the start
  of the list.
\<close>

definition py_slice_from :: "int \<Rightarrow> 'a list \<Rightarrow> 'a list" where
  "py_slice_from k xs =
     (if k < 0 then drop (nat (int (length xs) + k)) xs else drop (nat k) xs)"

text \<open>\<open>sep.join(xs)\<close>.\<close>

fun py_join :: "pystr \<Rightarrow> pystr list \<Rightarrow> pystr" where
  "py_join sep [] = []"
| "py_join sep [x] = x"
| "py_join sep (x # y # ys) = x @ sep @ py_join sep (y # ys)"

text \<open>
  The comprehension \<open>[feature_names[i] for i in sorted_indices if doc_vector[i] > 0]\<close>;
  either subscript may raise.
\<close>

fun select_keywords :: "pystr list \<Rightarrow> real list \<Rightarrow> nat list \<Rightarrow> py_exception + pystr list" where
  "select_keywords feature_names doc_vector [] = Inr []"
| "select_keywords feature_names doc_vector (i # sorted_indices) =
     (case py_nth doc_vector i of
        Inl e \<Rightarrow> Inl e
      | Inr w \<Rightarrow>
          if 0 < w
          then (case py_nth feature_names i of
                  Inl e \<Rightarrow> Inl e
                | Inr name \<Rightarrow>
                    (case select_keywords feature_names doc_vector sorted_indices of
                       Inl e \<Rightarrow> Inl e
                     | Inr keywords \<Rightarrow> Inr (name # keywords)))
          else select_keywords feature_names doc_vector sorted_indices)"

text \<open>
  The loop over the rows of the dense matrix. \<open>sorted_indices\<close> is
  \<open>doc_vector.argsort()[-top_n:][::-1]\<close>. An exception leaves the loop.
\<close>

fun keywords_loop ::
  "externals \<Rightarrow> pystr list \<Rightarrow> int \<Rightarrow> real list list \<Rightarrow> py_exception + pystr list" where
  "keywords_loop ext feature_names top_n [] = Inr []"
| "keywords_loop ext feature_names top_n (doc_vector # dense_matrix) =
     (let sorted_indices = rev (py_slice_from (- top_n) (argsort ext doc_vector))
      in case select_keywords feature_names doc_vector sorted_indices of
           Inl e \<Rightarrow> Inl e
         | Inr keywords \<Rightarrow>
             (case keywords_loop ext feature_names top_n dense_matrix of
                Inl e \<Rightarrow> Inl e
              | Inr keywords_list \<Rightarrow> Inr (py_join (lit ''|'') keywords # keywords_list)))"

text \<open>The body of the \<open>try\<close> statement of \<open>extract_keywords\<close>.\<close>

definition keywords_try ::
  "externals \<Rightarrow> nat \<Rightarrow> pystr list \<Rightarrow> int \<Rightarrow> py_exception + pystr list" where
  "keywords_try ext min_df clean_texts top_n =
     (case tfidf_fit_transform ext min_df clean_texts of
        Inl e \<Rightarrow> Inl e
      | Inr (feature_names, dense_matrix) \<Rightarrow> keywords_loop ext feature_names top_n dense_matrix)"

text \<open>
  \<open>extract_keywords(texts, top_n=5)\<close>; \<open>top_n\<close> is \<open>None\<close> when the caller leaves it out.
  The handler \<open>except Exception\<close> takes every exception of the model. Creating the
  vectorizer checks nothing and does not raise.
\<close>

definition extract_keywords ::
  "externals \<Rightarrow> pystr list \<Rightarrow> int option \<Rightarrow> py_exception + pystr list" where
  "extract_keywords ext texts top_n =
     (if texts = [] \<or> list_all (\<lambda>t. t = []) texts then Inr (replicate (length texts) [])
      else
        (let clean_texts = map (\<lambda>t. if t \<noteq> [] then clean_text ext t else []) texts;
             min_df = min 2 (length texts)
         in case keywords_try ext min_df clean_texts (case top_n of None \<Rightarrow> 5 | Some n \<Rightarrow> n) of
              Inl e \<Rightarrow> Inr (replicate (length texts) [])
            | Inr keywords_list \<Rightarrow> Inr keywords_list))"

definition generate_embeddings :: "externals \<Rightarrow> pystr list \<Rightarrow> real list list" where
  "generate_embeddings ext texts =
     (let clean_texts = map (\<lambda>t. if t \<noteq> [] then clean_text ext t else []) texts
      in encode ext clean_texts)"

text \<open>
  \<open>sklearn\<close>'s \<open>cosine_similarity\<close> of two vectors, over the reals: each vector is divided
  by its Euclidean norm (by 1 when the norm is 0) and the two are multiplied. It raises
  \<open>ValueError\<close> for vectors without entries or of different lengths.
\<close>

definition normalize :: "real list \<Rightarrow> real list" where
  "normalize x =
     (let norm = sqrt (sum_list (map (\<lambda>a. a * a) x));
          norm = (if norm = 0 then 1 else norm)
      in map (\<lambda>a. a / norm) x)"

definition dot :: "real list \<Rightarrow> real list \<Rightarrow> real" where
  "dot x y = sum_list (map (\<lambda>(a, b). a * b) (zip x y))"

definition cosine_similarity :: "real list \<Rightarrow> real list \<Rightarrow> py_exception + real" where
  "cosine_similarity x y =
     (if x = [] \<or> y = [] \<or> length x \<noteq> length y then Inl ValueError
      else Inr (dot (normalize x) (normalize y)))"

definition calculate_similarity :: "externals \<Rightarrow> pystr \<Rightarrow> pystr \<Rightarrow> py_exception + real" where
  "calculate_similarity ext text1 text2 =
     (let embeddings = generate_embeddings ext [text1, text2]
      in case py_nth embeddings 0 of
           Inl e \<Rightarrow> Inl e
         | Inr e0 \<Rightarrow>
             (case py_nth embeddings 1 of
                Inl e \<Rightarrow> Inl e
              | Inr e1 \<Rightarrow> cosine_similarity e0 e1))"

section \<open>scorer.py: the quality classifier\<close>

text \<open>
  The one-row data frame given to the model: the column names and values, in order.
  A loaded model is its \<open>predict\<close> method, which returns the labels or raises.
\<close>

type_synonym data_frame = "(string \<times> pynum) list"

type_synonym quality_model = "data_frame \<Rightarrow> py_exception + pystr list"

text \<open>
  \<open>load_quality_model\<close> is decorated with \<open>st.cache_resource\<close>: the first value it returns,
  \<open>None\<close> included, is stored and returned by every later call without running the
  body; a call that raises stores nothing. The store is \<open>None\<close> while it is empty.
  \<open>joblib_load\<close> is what \<open>joblib.load(model_path)\<close> does at the time of the call. Only
  \<open>FileNotFoundError\<close> is handled. The messages shown with \<open>st.error\<close> are left out.
\<close>

type_synonym model_cache = "quality_model option option"

definition load_quality_model ::
  "(py_exception + quality_model) \<Rightarrow> model_cache
     \<Rightarrow> (py_exception + quality_model option) \<times> model_cache" where
  "load_quality_model joblib_load cache =
     (case cache of
        Some stored \<Rightarrow> (Inr stored, cache)
      | None \<Rightarrow>
          (case joblib_load of
             Inr model \<Rightarrow> (Inr (Some model), Some (Some model))
           | Inl FileNotFoundError \<Rightarrow> (Inr None, Some None)
           | Inl e \<Rightarrow> (Inl e, None)))"

text \<open>
  \<open>predict_quality\<close>. \<open>feature_vector\<close> is the data frame it builds, with the columns
  in the order of the source. The call of \<open>load_quality_model\<close> is outside the \<open>try\<close> statement;
  \<open>model.predict(feature_vector)[0]\<close> is inside, and its handler \<open>except Exception\<close>
  takes every exception of the model.
\<close>

definition feature_vector :: "features \<Rightarrow> data_frame" where
  "feature_vector features =
     [(''word_count'', py_get features ''word_count'' (PyInt 0)),
      (''sentence_count'', py_get features ''sentence_count'' (PyInt 0)),
      (''flesch_reading_ease'', py_get features ''flesch_reading_ease'' (PyInt 0)),
      (''avg_word_length'', py_get features ''avg_word_length'' (PyInt 0))]"

definition predict_quality ::
  "(py_exception + quality_model) \<Rightarrow> model_cache \<Rightarrow> features
     \<Rightarrow> (py_exception + pystr) \<times> model_cache" where
  "predict_quality joblib_load cache features =
     (case load_quality_model joblib_load cache of
        (Inl e, cache') \<Rightarrow> (Inl e, cache')
      | (Inr None, cache') \<Rightarrow> (Inr (lit ''Unknown''), cache')
      | (Inr (Some model), cache') \<Rightarrow>
          (case model (feature_vector features) of
             Inl e \<Rightarrow> (Inr (lit ''Unknown''), cache')
           | Inr predictions \<Rightarrow>
               (case py_nth predictions 0 of
                  Inl e \<Rightarrow> (Inr (lit ''Unknown''), cache')
                | Inr prediction \<Rightarrow> (Inr prediction, cache'))))"

section \<open>Sample inputs\<close>

text \<open>
  An instance of the external functions for the examples: lower case for ASCII letters,
  a tokenizer that returns its input as one sentence, a constant readability score, a
  vectorizer with two terms that fails when no document has a token of two characters,
  a stable \<open>argsort\<close>, and an embedding of a text by its length.
\<close>

definition sample_externals :: externals where
  "sample_externals =
     \<lparr>str_lower = map (\<lambda>c. if 0x41 \<le> c \<and> c \<le> 0x5A then c + 0x20 else c),
      sent_tokenize = (\<lambda>s. [s]),
      flesch_reading_ease = (\<lambda>s. 60),
      tfidf_fit_transform =
        (\<lambda>min_df docs.
           if list_all (\<lambda>d. length d < 2) docs then Inl ValueError
           else Inr ([lit ''content'', lit ''seo''], map (\<lambda>d. [1 / 2, real (length d)]) docs)),
      argsort = (\<lambda>v. map snd (sort_key fst (zip v [0 ..< length v]))),
      encode = map (\<lambda>t. [real (length t), 1])\<rparr>"

section \<open>Properties of the composite score and the thin-content predicate\<close>

lemma score_total_le_100:
  "min (a / 2000) 1 * 30 + min (max b 0 / 100) 1 * 40 + min (c / 50) 1 * 20
     + min (d / 6) 1 * 10 \<le> (100::real)"
proof -
  have "min (a / 2000) 1 * 30 \<le> 30" by simp
  moreover have "min (max b 0 / 100) 1 * 40 \<le> 40" by simp
  moreover have "min (c / 50) 1 * 20 \<le> 20" by simp
  moreover have "min (d / 6) 1 * 10 \<le> 10" by simp
  ultimately show ?thesis by linarith
qed

lemma calculate_composite_score_val:
  "val (calculate_composite_score f) =
     min (val (py_get f ''word_count'' (PyInt 0)) / 2000) 1 * 30
     + min (max (val (py_get f ''flesch_reading_ease'' (PyInt 0))) 0 / 100) 1 * 40
     + min (val (py_get f ''sentence_count'' (PyInt 0)) / 50) 1 * 20
     + min (val (py_get f ''avg_word_length'' (PyInt 0)) / 6) 1 * 10"
  using score_total_le_100
    [of "val (py_get f ''word_count'' (PyInt 0))"
        "val (py_get f ''flesch_reading_ease'' (PyInt 0))"
        "val (py_get f ''sentence_count'' (PyInt 0))"
        "val (py_get f ''avg_word_length'' (PyInt 0))"]
  by (simp add: calculate_composite_score_def Let_def)

lemma py_get_upd: "py_get (f(k \<mapsto> v)) k' d = (if k' = k then v else py_get f k' d)"
  by (simp add: py_get_def)

lemma score_term_mono:
  "x \<le> y \<Longrightarrow> 0 < c \<Longrightarrow> 0 \<le> w \<Longrightarrow> min (x / c) 1 * w \<le> min (y / c) 1 * (w::real)"
  by (intro mult_right_mono min.mono divide_right_mono) auto

lemma score_term_nonneg:
  "0 \<le> x \<Longrightarrow> 0 < c \<Longrightarrow> 0 \<le> w \<Longrightarrow> 0 \<le> min (x / c) 1 * (w::real)"
  by simp

lemma score_mono_upd:
  assumes "val a \<le> val b"
  shows "val (calculate_composite_score (f(k \<mapsto> a)))
           \<le> val (calculate_composite_score (f(k \<mapsto> b)))"
proof -
  let ?g = "\<lambda>v key. val (py_get (f(k \<mapsto> v)) key (PyInt 0))"
  have le: "?g a key \<le> ?g b key" for key
    using assms by (simp add: py_get_upd)
  then have le0: "max (?g a key) 0 \<le> max (?g b key) 0" for key
    using max.mono [OF le order_refl] by simp
  have 1: "min (?g a ''word_count'' / 2000) 1 * 30 \<le> min (?g b ''word_count'' / 2000) 1 * 30"
    by (rule score_term_mono [OF le]) simp_all
  have 2: "min (max (?g a ''flesch_reading_ease'') 0 / 100) 1 * 40
             \<le> min (max (?g b ''flesch_reading_ease'') 0 / 100) 1 * 40"
    by (rule score_term_mono [OF le0]) simp_all
  have 3: "min (?g a ''sentence_count'' / 50) 1 * 20 \<le> min (?g b ''sentence_count'' / 50) 1 * 20"
    by (rule score_term_mono [OF le]) simp_all
  have 4: "min (?g a ''avg_word_length'' / 6) 1 * 10 \<le> min (?g b ''avg_word_length'' / 6) 1 * 10"
    by (rule score_term_mono [OF le]) simp_all
  show ?thesis
    unfolding calculate_composite_score_val using 1 2 3 4 by linarith
qed

lemma score_range:
  assumes "0 \<le> val (py_get f ''word_count'' (PyInt 0))"
    and "0 \<le> val (py_get f ''sentence_count'' (PyInt 0))"
    and "0 \<le> val (py_get f ''avg_word_length'' (PyInt 0))"
  shows "0 \<le> val (calculate_composite_score f)" "val (calculate_composite_score f) \<le> 100"
proof -
  have 1: "0 \<le> min (val (py_get f ''word_count'' (PyInt 0)) / 2000) 1 * 30"
    using assms(1) by simp
  have 2: "0 \<le> min (max (val (py_get f ''flesch_reading_ease'' (PyInt 0))) 0 / 100) 1 * 40"
    by simp
  have 3: "0 \<le> min (val (py_get f ''sentence_count'' (PyInt 0)) / 50) 1 * 20"
    using assms(2) by simp
  have 4: "0 \<le> min (val (py_get f ''avg_word_length'' (PyInt 0)) / 6) 1 * 10"
    using assms(3) by simp
  show "0 \<le> val (calculate_composite_score f)"
    unfolding calculate_composite_score_val using 1 2 3 4 by linarith
  show "val (calculate_composite_score f) \<le> 100"
    unfolding calculate_composite_score_val by (rule score_total_le_100)
qed

text \<open>
  Claim C1. The composite score does not decrease when one entry of the feature
  dictionary is replaced by a larger number and the other entries are kept (whatever the
  key, so in particular for each of the four inputs), and with a non-negative word count,
  sentence count and average word length it lies between 0 and 100, for any Flesch score.
\<close>

theorem composite_score_monotone_and_bounded:
  "(val a \<le> val b \<longrightarrow>
      val (calculate_composite_score (f(k \<mapsto> a)))
        \<le> val (calculate_composite_score (f(k \<mapsto> b))))
   \<and> (0 \<le> val (py_get g ''word_count'' (PyInt 0))
        \<and> 0 \<le> val (py_get g ''sentence_count'' (PyInt 0))
        \<and> 0 \<le> val (py_get g ''avg_word_length'' (PyInt 0))
      \<longrightarrow> 0 \<le> val (calculate_composite_score g)
          \<and> val (calculate_composite_score g) \<le> 100)"
  using score_mono_upd [of a b f k] score_range [of g] by blast

theorem composite_score_monotone_and_bounded_witness:
  "val (PyFloat 35) \<le> val (PyFloat 72)
   \<and> val (calculate_composite_score
          ([''word_count'' \<mapsto> PyInt 800, ''sentence_count'' \<mapsto> PyInt 40,
            ''avg_word_length'' \<mapsto> PyFloat 5](''flesch_reading_ease'' \<mapsto> PyFloat 35)))
       \<le> val (calculate_composite_score
          ([''word_count'' \<mapsto> PyInt 800, ''sentence_count'' \<mapsto> PyInt 40,
            ''avg_word_length'' \<mapsto> PyFloat 5](''flesch_reading_ease'' \<mapsto> PyFloat 72)))
   \<and> 0 \<le> val (calculate_composite_score
          [''word_count'' \<mapsto> PyInt 800, ''sentence_count'' \<mapsto> PyInt 40,
           ''flesch_reading_ease'' \<mapsto> PyFloat (- 12), ''avg_word_length'' \<mapsto> PyFloat 5])
   \<and> val (calculate_composite_score
          [''word_count'' \<mapsto> PyInt 800, ''sentence_count'' \<mapsto> PyInt 40,
           ''flesch_reading_ease'' \<mapsto> PyFloat (- 12), ''avg_word_length'' \<mapsto> PyFloat 5]) \<le> 100"
proof -
  let ?f = "[''word_count'' \<mapsto> PyInt 800, ''sentence_count'' \<mapsto> PyInt 40,
             ''avg_word_length'' \<mapsto> PyFloat 5]"
  let ?g = "[''word_count'' \<mapsto> PyInt 800, ''sentence_count'' \<mapsto> PyInt 40,
             ''flesch_reading_ease'' \<mapsto> PyFloat (- 12), ''avg_word_length'' \<mapsto> PyFloat 5]"
  have h1: "val (PyFloat 35) \<le> val (PyFloat 72)" by simp
  have h2: "0 \<le> val (py_get ?g ''word_count'' (PyInt 0))
        \<and> 0 \<le> val (py_get ?g ''sentence_count'' (PyInt 0))
        \<and> 0 \<le> val (py_get ?g ''avg_word_length'' (PyInt 0))"
    by (simp add: py_get_def)
  show ?thesis
    using h1 h2
      composite_score_monotone_and_bounded
        [of "PyFloat 35" "PyFloat 72" ?f "''flesch_reading_ease''" ?g]
    by blast
qed

text \<open>
  Claim C6. On the input that reaches every cap (2000 words, 50 sentences, Flesch score
  100, average word length 6) the composite score is the float 100, and on the all-zero
  input it is the float 0.
\<close>

theorem composite_score_saturated_and_zero:
  "calculate_composite_score
     [''word_count'' \<mapsto> PyInt 2000, ''sentence_count'' \<mapsto> PyInt 50,
      ''flesch_reading_ease'' \<mapsto> PyInt 100, ''avg_word_length'' \<mapsto> PyInt 6] = PyFloat 100
   \<and> calculate_composite_score
     [''word_count'' \<mapsto> PyInt 0, ''sentence_count'' \<mapsto> PyInt 0,
      ''flesch_reading_ease'' \<mapsto> PyInt 0, ''avg_word_length'' \<mapsto> PyInt 0] = PyFloat 0"
  by (simp add: calculate_composite_score_def py_get_def Let_def)

text \<open>
  Claim C9. \<open>is_thin_content\<close> holds exactly when the word count is below the threshold,
  the threshold being 500 when none is given: 499 words are thin content, 500 are not.
\<close>

theorem is_thin_content_iff:
  "is_thin_content word_count (Some threshold) = (word_count < threshold)
   \<and> is_thin_content word_count None = (word_count < 500)
   \<and> is_thin_content 499 None = True
   \<and> is_thin_content 500 None = False"
  by (simp add: is_thin_content_def)

subsection \<open>Interpretation\<close>

lemma msg_distinct:
  "msg_increase_length s \<noteq> msg_consider_expanding s'"
  "msg_increase_length s \<noteq> msg_simplify_language s'"
  "msg_increase_length s \<noteq> msg_improve_readability s'"
  "msg_increase_length s \<noteq> msg_review_structure"
  "msg_increase_length s \<noteq> msg_focus_intent"
  "msg_consider_expanding s \<noteq> msg_increase_length s'"
  "msg_consider_expanding s \<noteq> msg_simplify_language s'"
  "msg_consider_expanding s \<noteq> msg_improve_readability s'"
  "msg_consider_expanding s \<noteq> msg_review_structure"
  "msg_consider_expanding s \<noteq> msg_focus_intent"
  "msg_simplify_language s \<noteq> msg_increase_length s'"
  "msg_simplify_language s \<noteq> msg_consider_expanding s'"
  "msg_simplify_language s \<noteq> msg_improve_readability s'"
  "msg_simplify_language s \<noteq> msg_review_structure"
  "msg_simplify_language s \<noteq> msg_focus_intent"
  "msg_improve_readability s \<noteq> msg_increase_length s'"
  "msg_improve_readability s \<noteq> msg_consider_expanding s'"
  "msg_improve_readability s \<noteq> msg_simplify_language s'"
  "msg_improve_readability s \<noteq> msg_review_structure"
  "msg_improve_readability s \<noteq> msg_focus_intent"
  "msg_review_structure \<noteq> msg_increase_length s'"
  "msg_review_structure \<noteq> msg_consider_expanding s'"
  "msg_review_structure \<noteq> msg_simplify_language s'"
  "msg_review_structure \<noteq> msg_improve_readability s'"
  "msg_review_structure \<noteq> msg_focus_intent"
  "msg_focus_intent \<noteq> msg_increase_length s'"
  "msg_focus_intent \<noteq> msg_consider_expanding s'"
  "msg_focus_intent \<noteq> msg_simplify_language s'"
  "msg_focus_intent \<noteq> msg_improve_readability s'"
  "msg_focus_intent \<noteq> msg_review_structure"
  by (simp_all add: msg_increase_length_def msg_consider_expanding_def
      msg_simplify_language_def msg_improve_readability_def msg_review_structure_def
      msg_focus_intent_def lit_def)

lemma interpretations_Unknown:
  "py_index interpretations (lit ''Unknown'') =
     Inr \<lparr>emoji = [0x26AA], message = lit ''Unable to assess quality'',
          description = lit ''Quality assessment unavailable.'', recommendations = []\<rparr>"
  by (simp add: py_index_def interpretations_def lit_def)

lemma interpretation_recommendations:
  "\<exists>r. get_quality_score_interpretation float_repr quality f = Inr r
     \<and> recommendations r =
         (let word_count = py_get f ''word_count'' (PyInt 0);
              flesch = py_get f ''flesch_reading_ease'' (PyInt 0)
          in (if val word_count < 500
              then [msg_increase_length (format_plain float_repr word_count)]
              else if val word_count < 1500
              then [msg_consider_expanding (format_plain float_repr word_count)]
              else [])
           @ (if val flesch < 30 then [msg_simplify_language (format_1f flesch)]
              else if val flesch < 50 then [msg_improve_readability (format_1f flesch)]
              else [])
           @ (if quality = lit ''Low'' then [msg_review_structure, msg_focus_intent] else []))"
  by (simp add: get_quality_score_interpretation_def interpretations_Unknown Let_def)

text \<open>
  Claim C4. The recommendations are the word-count message (at most one of the two), then
  the readability message (at most one of the two), then the two messages for the label
  \<open>Low\<close>. No result holds both word-count messages or both readability messages. For
  100 words, a Flesch score of 20 and the label \<open>Low\<close> the list is the length-increase
  message, the simplify-language message and the two \<open>Low\<close> messages, in that order.
\<close>

theorem recommendations_fixed_order:
  "(\<exists>r. get_quality_score_interpretation float_repr quality f = Inr r
      \<and> recommendations r =
          (let word_count = py_get f ''word_count'' (PyInt 0);
               flesch = py_get f ''flesch_reading_ease'' (PyInt 0)
           in (if val word_count < 500
               then [msg_increase_length (format_plain float_repr word_count)]
               else if val word_count < 1500
               then [msg_consider_expanding (format_plain float_repr word_count)]
               else [])
            @ (if val flesch < 30 then [msg_simplify_language (format_1f flesch)]
               else if val flesch < 50 then [msg_improve_readability (format_1f flesch)]
               else [])
            @ (if quality = lit ''Low'' then [msg_review_structure, msg_focus_intent] else []))
      \<and> \<not> (\<exists>s s'. msg_increase_length s \<in> set (recommendations r)
                  \<and> msg_consider_expanding s' \<in> set (recommendations r))
      \<and> \<not> (\<exists>s s'. msg_simplify_language s \<in> set (recommendations r)
                  \<and> msg_improve_readability s' \<in> set (recommendations r)))
   \<and> get_quality_score_interpretation float_repr (lit ''Low'')
        [''word_count'' \<mapsto> PyInt 100, ''flesch_reading_ease'' \<mapsto> PyFloat 20]
      = Inr \<lparr>emoji = [0x1F534],
             message = lit ''Content needs significant improvement'',
             description = lit ''This content falls short of quality standards.'',
             recommendations =
               [msg_increase_length (lit ''100''), msg_simplify_language (lit ''20.0''),
                msg_review_structure, msg_focus_intent]\<rparr>"
proof (intro conjI)
  obtain r where r: "get_quality_score_interpretation float_repr quality f = Inr r"
    and recs: "recommendations r =
          (let word_count = py_get f ''word_count'' (PyInt 0);
               flesch = py_get f ''flesch_reading_ease'' (PyInt 0)
           in (if val word_count < 500
               then [msg_increase_length (format_plain float_repr word_count)]
               else if val word_count < 1500
               then [msg_consider_expanding (format_plain float_repr word_count)]
               else [])
            @ (if val flesch < 30 then [msg_simplify_language (format_1f flesch)]
               else if val flesch < 50 then [msg_improve_readability (format_1f flesch)]
               else [])
            @ (if quality = lit ''Low'' then [msg_review_structure, msg_focus_intent] else []))"
    using interpretation_recommendations by blast
  have w: "\<not> (\<exists>s s'. msg_increase_length s \<in> set (recommendations r)
                  \<and> msg_consider_expanding s' \<in> set (recommendations r))"
    unfolding recs Let_def by (auto simp: msg_distinct split: if_splits)
  have x: "\<not> (\<exists>s s'. msg_simplify_language s \<in> set (recommendations r)
                  \<and> msg_improve_readability s' \<in> set (recommendations r))"
    unfolding recs Let_def by (auto simp: msg_distinct split: if_splits)
  show "\<exists>r. get_quality_score_interpretation float_repr quality f = Inr r
      \<and> recommendations r =
          (let word_count = py_get f ''word_count'' (PyInt 0);
               flesch = py_get f ''flesch_reading_ease'' (PyInt 0)
           in (if val word_count < 500
               then [msg_increase_length (format_plain float_repr word_count)]
               else if val word_count < 1500
               then [msg_consider_expanding (format_plain float_repr word_count)]
               else [])
            @ (if val flesch < 30 then [msg_simplify_language (format_1f flesch)]
               else if val flesch < 50 then [msg_improve_readability (format_1f flesch)]
               else [])
            @ (if quality = lit ''Low'' then [msg_review_structure, msg_focus_intent] else []))
      \<and> \<not> (\<exists>s s'. msg_increase_length s \<in> set (recommendations r)
                  \<and> msg_consider_expanding s' \<in> set (recommendations r))
      \<and> \<not> (\<exists>s s'. msg_simplify_language s \<in> set (recommendations r)
                  \<and> msg_improve_readability s' \<in> set (recommendations r))"
    using r recs w x by blast
next
  have 1: "format_plain float_repr (PyInt 100) = lit ''100''"
    by (simp add: format_plain_def str_int_def lit_def)
  have 2: "format_1f (PyFloat 20) = lit ''20.0''"
    by (simp add: format_1f_def round_half_even_def Let_def lit_def)
  have 3: "py_get interpretations (lit ''Low'') u =
      \<lparr>emoji = [0x1F534],
       message = lit ''Content needs significant improvement'',
       description = lit ''This content falls short of quality standards.'',
       recommendations = []\<rparr>" for u
    by (simp add: py_get_def interpretations_def lit_def)
  show "get_quality_score_interpretation float_repr (lit ''Low'')
        [''word_count'' \<mapsto> PyInt 100, ''flesch_reading_ease'' \<mapsto> PyFloat 20]
      = Inr \<lparr>emoji = [0x1F534],
             message = lit ''Content needs significant improvement'',
             description = lit ''This content falls short of quality standards.'',
             recommendations =
               [msg_increase_length (lit ''100''), msg_simplify_language (lit ''20.0''),
                msg_review_structure, msg_focus_intent]\<rparr>"
    by (simp add: get_quality_score_interpretation_def interpretations_Unknown Let_def 1 2 3
        py_get_upd)
qed

text \<open>
  Claim C10. A label other than \<open>High\<close>, \<open>Medium\<close>, \<open>Low\<close> and \<open>Unknown\<close> gets the
  emoji, message and description of the \<open>Unknown\<close> template; its recommendations are
  the word-count and readability messages chosen by the thresholds, without the two
  messages for \<open>Low\<close>. The whole result is the one for the label \<open>Unknown\<close>.
\<close>

theorem unrecognised_label_gets_unknown_template:
  assumes "quality \<notin> {lit ''High'', lit ''Medium'', lit ''Low'', lit ''Unknown''}"
  shows "get_quality_score_interpretation float_repr quality f =
      Inr \<lparr>emoji = [0x26AA],
           message = lit ''Unable to assess quality'',
           description = lit ''Quality assessment unavailable.'',
           recommendations =
             (let word_count = py_get f ''word_count'' (PyInt 0);
                  flesch = py_get f ''flesch_reading_ease'' (PyInt 0)
              in (if val word_count < 500
                  then [msg_increase_length (format_plain float_repr word_count)]
                  else if val word_count < 1500
                  then [msg_consider_expanding (format_plain float_repr word_count)]
                  else [])
               @ (if val flesch < 30 then [msg_simplify_language (format_1f flesch)]
                  else if val flesch < 50 then [msg_improve_readability (format_1f flesch)]
                  else []))\<rparr>
    \<and> get_quality_score_interpretation float_repr quality f =
        get_quality_score_interpretation float_repr (lit ''Unknown'') f"
proof -
  have q: "interpretations quality = None"
    using assms by (simp add: interpretations_def)
  have u: "lit ''Unknown'' \<noteq> lit ''Low''"
    by (simp add: lit_def)
  have k: "py_get interpretations (lit ''Unknown'') d =
      \<lparr>emoji = [0x26AA], message = lit ''Unable to assess quality'',
       description = lit ''Quality assessment unavailable.'', recommendations = []\<rparr>" for d
    by (simp add: py_get_def interpretations_def lit_def)
  have l: "quality \<noteq> lit ''Low''"
    using assms by simp
  show ?thesis
    by (simp add: get_quality_score_interpretation_def interpretations_Unknown Let_def
        py_get_def [of interpretations quality] q u k l)
qed

theorem unrecognised_label_gets_unknown_template_witness:
  "lit ''Excellent'' \<notin> {lit ''High'', lit ''Medium'', lit ''Low'', lit ''Unknown''}
   \<and> get_quality_score_interpretation (\<lambda>x. []) (lit ''Excellent'')
        [''word_count'' \<mapsto> PyInt 1200, ''flesch_reading_ease'' \<mapsto> PyFloat (49 / 4)] =
      Inr \<lparr>emoji = [0x26AA],
           message = lit ''Unable to assess quality'',
           description = lit ''Quality assessment unavailable.'',
           recommendations =
             [msg_consider_expanding (lit ''1200''), msg_simplify_language (lit ''12.2'')]\<rparr>"
proof -
  have h: "lit ''Excellent'' \<notin> {lit ''High'', lit ''Medium'', lit ''Low'', lit ''Unknown''}"
    by (simp add: lit_def)
  have 1: "format_plain (\<lambda>x. []) (PyInt 1200) = lit ''1200''"
    by (simp add: format_plain_def str_int_def lit_def)
  have 2: "format_1f (PyFloat (49 / 4)) = lit ''12.2''"
    by (simp add: format_1f_def round_half_even_def Let_def lit_def)
  show ?thesis
    using unrecognised_label_gets_unknown_template
      [OF h, of "\<lambda>x. []" "[''word_count'' \<mapsto> PyInt 1200, ''flesch_reading_ease'' \<mapsto> PyFloat (49 / 4)]"]
      h
    by (simp add: py_get_upd 1 2)
qed

subsection \<open>Basic features\<close>

lemma split_from_Nil: "split_from cur s = [] \<longleftrightarrow> cur = [] \<and> (\<forall>c\<in>set s. is_space c)"
  by (induction s arbitrary: cur) auto

lemma py_strip_nonspace: "py_strip s \<noteq> [] \<Longrightarrow> \<exists>c\<in>set (py_strip s). \<not> is_space c"
  unfolding py_strip_def
  by (metis hd_dropWhile hd_in_set rev_is_Nil_conv set_rev)

lemma py_split_strip_Nil: "py_split (py_strip s) = [] \<longleftrightarrow> py_strip s = []"
  using py_strip_nonspace [of s] by (auto simp: py_split_def split_from_Nil)

lemma py_split_clean_text_Nil: "py_split (clean_text ext t) = [] \<longleftrightarrow> clean_text ext t = []"
  unfolding clean_text_def by (rule py_split_strip_Nil)

lemma token_starts:
  "(cur = [] \<longleftrightarrow> is_space p) \<Longrightarrow>
   length (split_from cur s) =
     (if cur = [] then 0 else 1)
     + length (filter (\<lambda>(p, c). is_space p \<and> \<not> is_space c) (zip (p # s) s))"
proof (induction s arbitrary: cur p)
  case Nil
  then show ?case by simp
next
  case (Cons c cs)
  have 1: "length (split_from [] cs) =
      length (filter (\<lambda>(p, c). is_space p \<and> \<not> is_space c) (zip (c # cs) cs))"
    if "is_space c"
    using Cons.IH [of "[]" c] that by simp
  have 2: "length (split_from (c # cur) cs) =
      1 + length (filter (\<lambda>(p, c). is_space p \<and> \<not> is_space c) (zip (c # cs) cs))"
    if "\<not> is_space c"
    using Cons.IH [of "c # cur" c] that by simp
  show ?case using Cons.prems 1 2 by auto
qed

lemma length_py_split: "length (py_split s) = token_count s"
  using token_starts [of "[]" "0x20" s] by (simp add: py_split_def token_count_def is_space_def)

text \<open>
  Claim C5. The \<open>word_count\<close> entry of \<open>extract_basic_features\<close> is the length of
  \<open>clean_text(t).split()\<close>, and that length is the number of whitespace-delimited
  tokens of the normalised text.
\<close>

theorem word_count_is_token_count:
  "extract_basic_features ext t ''word_count'' =
     Some (PyInt (int (length (py_split (clean_text ext t)))))
   \<and> length (py_split (clean_text ext t)) = token_count (clean_text ext t)"
  by (simp add: extract_basic_features_def Let_def length_py_split)

text \<open>
  Claim C3. When the \<open>word_count\<close> entry of \<open>extract_basic_features\<close> is 0, the
  normalised text is empty and the other three entries are the zeros the code assigns for
  an empty text, whatever the sentence tokenizer and the readability formula would return.
\<close>

theorem zero_words_zero_features:
  assumes "extract_basic_features ext t ''word_count'' = Some (PyInt 0)"
  shows "extract_basic_features ext t ''sentence_count'' = Some (PyInt 0)
    \<and> extract_basic_features ext t ''avg_word_length'' = Some (PyFloat 0)
    \<and> extract_basic_features ext t ''flesch_reading_ease'' = Some (PyInt 0)
    \<and> clean_text ext t = []"
proof -
  from assms have "py_split (clean_text ext t) = []"
    by (simp add: extract_basic_features_def Let_def)
  then have "clean_text ext t = []"
    by (simp add: py_split_clean_text_Nil)
  then show ?thesis
    by (simp add: extract_basic_features_def Let_def py_split_def)
qed

theorem zero_words_zero_features_witness:
  "extract_basic_features sample_externals [0x20, 0x09, 0x0A, 0xA0] ''word_count'' = Some (PyInt 0)
   \<and> extract_basic_features sample_externals [0x20, 0x09, 0x0A, 0xA0] ''sentence_count'' = Some (PyInt 0)
    \<and> extract_basic_features sample_externals [0x20, 0x09, 0x0A, 0xA0] ''avg_word_length'' = Some (PyFloat 0)
    \<and> extract_basic_features sample_externals [0x20, 0x09, 0x0A, 0xA0] ''flesch_reading_ease'' = Some (PyInt 0)
    \<and> clean_text sample_externals [0x20, 0x09, 0x0A, 0xA0] = []"
proof -
  have c: "clean_text sample_externals [0x20, 0x09, 0x0A, 0xA0] = []"
    by (simp add: clean_text_def sample_externals_def is_space_def py_strip_def)
  have h: "extract_basic_features sample_externals [0x20, 0x09, 0x0A, 0xA0] ''word_count'' = Some (PyInt 0)"
    by (simp add: extract_basic_features_def Let_def c py_split_def)
  show ?thesis
    using h zero_words_zero_features [OF h] by blast
qed


subsection \<open>Keywords and similarity\<close>

lemma keywords_loop_length:
  "keywords_loop ext feature_names top_n dense_matrix = Inr keywords_list \<Longrightarrow>
   length keywords_list = length dense_matrix"
  by (induction dense_matrix arbitrary: keywords_list) (auto simp: Let_def split: sum.splits)

lemma extract_keywords_returns: "\<exists>r. extract_keywords ext texts top_n = Inr r"
  by (simp add: extract_keywords_def Let_def split: sum.splits)

lemma dot_commute: "dot x y = dot y x"
proof -
  have "map (\<lambda>(a, b). a * b) (zip x y) = map (\<lambda>(a, b). a * b) (zip y x)"
    by (induction x arbitrary: y) (auto simp: zip_Cons1 zip_Cons mult.commute split: list.splits)
  then show ?thesis by (simp add: dot_def)
qed

lemma cosine_similarity_commute: "cosine_similarity x y = cosine_similarity y x"
  by (auto simp: cosine_similarity_def dot_commute)

text \<open>
  Claim C7. \<open>extract_keywords\<close> always returns a list and never an exception. When the
  vectorizer gives one row per document, as its interface says, the list has one string
  per input text. When the extraction raises, the list is the empty string for each text.
\<close>

theorem extract_keywords_one_string_per_document:
  "(\<exists>keywords_list. extract_keywords ext texts top_n = Inr keywords_list)
   \<and> ((\<forall>feature_names dense_matrix.
          tfidf_fit_transform ext (min 2 (length texts))
            (map (\<lambda>t. if t \<noteq> [] then clean_text ext t else []) texts)
            = Inr (feature_names, dense_matrix)
          \<longrightarrow> length dense_matrix = length texts)
       \<longrightarrow> (\<exists>keywords_list. extract_keywords ext texts top_n = Inr keywords_list
              \<and> length keywords_list = length texts))
   \<and> ((\<exists>e. keywords_try ext (min 2 (length texts))
              (map (\<lambda>t. if t \<noteq> [] then clean_text ext t else []) texts)
              (case top_n of None \<Rightarrow> 5 | Some n \<Rightarrow> n) = Inl e)
       \<longrightarrow> extract_keywords ext texts top_n = Inr (replicate (length texts) []))"
proof (intro conjI impI)
  show "\<exists>keywords_list. extract_keywords ext texts top_n = Inr keywords_list"
    by (rule extract_keywords_returns)
next
  let ?clean = "map (\<lambda>t. if t \<noteq> [] then clean_text ext t else []) texts"
  let ?n = "case top_n of None \<Rightarrow> 5 | Some n \<Rightarrow> n"
  assume rows: "\<forall>feature_names dense_matrix.
          tfidf_fit_transform ext (min 2 (length texts)) ?clean = Inr (feature_names, dense_matrix)
          \<longrightarrow> length dense_matrix = length texts"
  have len: "length keywords_list = length texts"
    if ktry: "keywords_try ext (min 2 (length texts)) ?clean ?n = Inr keywords_list"
    for keywords_list
  proof (cases "tfidf_fit_transform ext (min 2 (length texts)) ?clean")
    case (Inl e)
    with ktry show ?thesis by (simp add: keywords_try_def)
  next
    case (Inr fitted)
    obtain feature_names dense_matrix where fitted: "fitted = (feature_names, dense_matrix)"
      by (cases fitted)
    from ktry Inr fitted
    have "keywords_loop ext feature_names ?n dense_matrix = Inr keywords_list"
      by (simp add: keywords_try_def)
    then have "length keywords_list = length dense_matrix"
      by (rule keywords_loop_length)
    moreover from rows Inr fitted have "length dense_matrix = length texts"
      by blast
    ultimately show ?thesis by simp
  qed
  show "\<exists>keywords_list. extract_keywords ext texts top_n = Inr keywords_list
              \<and> length keywords_list = length texts"
  proof (cases "texts = [] \<or> list_all (\<lambda>t. t = []) texts")
    case True
    then show ?thesis by (simp add: extract_keywords_def)
  next
    case False
    show ?thesis
    proof (cases "keywords_try ext (min 2 (length texts)) ?clean ?n")
      case (Inl e)
      with False show ?thesis by (simp add: extract_keywords_def Let_def)
    next
      case (Inr keywords_list)
      from len [OF Inr] have "length keywords_list = length texts" .
      with False Inr show ?thesis by (simp add: extract_keywords_def Let_def)
    qed
  qed
next
  assume "\<exists>e. keywords_try ext (min 2 (length texts))
              (map (\<lambda>t. if t \<noteq> [] then clean_text ext t else []) texts)
              (case top_n of None \<Rightarrow> 5 | Some n \<Rightarrow> n) = Inl e"
  then obtain e where "keywords_try ext (min 2 (length texts))
              (map (\<lambda>t. if t \<noteq> [] then clean_text ext t else []) texts)
              (case top_n of None \<Rightarrow> 5 | Some n \<Rightarrow> n) = Inl e" ..
  then show "extract_keywords ext texts top_n = Inr (replicate (length texts) [])"
    by (simp add: extract_keywords_def Let_def)
qed

lemma sample_clean_text:
  "clean_text sample_externals (lit ''SEO  Content'') = lit ''seo content''"
  "clean_text sample_externals (lit ''thin'') = lit ''thin''"
  "clean_text sample_externals (lit ''a'') = lit ''a''"
  by (simp_all add: clean_text_def sample_externals_def py_strip_def is_space_def lit_def)

theorem extract_keywords_one_string_per_document_witness:
  "(\<exists>keywords_list.
      extract_keywords sample_externals [lit ''SEO  Content'', lit ''thin''] None = Inr keywords_list
      \<and> length keywords_list = length [lit ''SEO  Content'', lit ''thin''])
   \<and> extract_keywords sample_externals [lit ''a'', []] None = Inr (replicate (length [lit ''a'', []]) [])"
proof -
  have l: "lit ''SEO  Content'' \<noteq> []" "lit ''thin'' \<noteq> []" "lit ''a'' \<noteq> []"
    by (simp_all add: lit_def)
  have h1: "\<forall>feature_names dense_matrix.
          tfidf_fit_transform sample_externals (min 2 (length [lit ''SEO  Content'', lit ''thin'']))
            (map (\<lambda>t. if t \<noteq> [] then clean_text sample_externals t else [])
               [lit ''SEO  Content'', lit ''thin''])
            = Inr (feature_names, dense_matrix)
          \<longrightarrow> length dense_matrix = length [lit ''SEO  Content'', lit ''thin'']"
    by (auto simp: sample_externals_def split: if_splits)
  have h2: "\<exists>e. keywords_try sample_externals (min 2 (length [lit ''a'', []]))
              (map (\<lambda>t. if t \<noteq> [] then clean_text sample_externals t else []) [lit ''a'', []])
              (case None of None \<Rightarrow> 5 | Some n \<Rightarrow> n) = Inl e"
    by (simp add: keywords_try_def l sample_clean_text) (simp add: sample_externals_def lit_def)
  show ?thesis
    using h1 h2
      extract_keywords_one_string_per_document
        [of sample_externals "[lit ''SEO  Content'', lit ''thin'']" None]
      extract_keywords_one_string_per_document
        [of sample_externals "[lit ''a'', []]" None]
    by blast
qed

text \<open>
  Claim C8. When the embedding model encodes each text of a batch by one fixed function
  of that text, \<open>calculate_similarity\<close> gives the same result for both orders of its
  arguments, an exception included.
\<close>

theorem calculate_similarity_symmetric:
  assumes "\<forall>texts. encode ext texts = map embedding texts"
  shows "calculate_similarity ext text1 text2 = calculate_similarity ext text2 text1"
  using assms
  by (simp add: calculate_similarity_def generate_embeddings_def py_nth_def Let_def
      cosine_similarity_commute)

theorem calculate_similarity_symmetric_witness:
  "(\<forall>texts. encode sample_externals texts = map (\<lambda>t. [real (length t), 1]) texts)
   \<and> calculate_similarity sample_externals (lit ''thin page'') (lit ''a long article'')
       = calculate_similarity sample_externals (lit ''a long article'') (lit ''thin page'')"
proof -
  have h: "\<forall>texts. encode sample_externals texts = map (\<lambda>t. [real (length t), 1]) texts"
    by (simp add: sample_externals_def)
  show ?thesis
    using h calculate_similarity_symmetric [OF h, of "lit ''thin page''" "lit ''a long article''"]
    by blast
qed


subsection \<open>The quality classifier\<close>

text \<open>
  Claim C2, as the code has it. With an empty store and a model file that is not found,
  and on every call after \<open>None\<close> has been stored, \<open>predict_quality\<close> returns \<open>Unknown\<close>
  and the store holds \<open>None\<close>. When the model raises during the prediction, or returns
  no label, the result is \<open>Unknown\<close>. No exception reaches the caller when the model is
  stored, is loaded, or is not found.
\<close>

theorem predict_quality_fallbacks:
  "((cache = None \<and> joblib_load = Inl FileNotFoundError) \<or> cache = Some None
      \<longrightarrow> predict_quality joblib_load cache f = (Inr (lit ''Unknown''), Some None))
   \<and> (((cache = None \<and> joblib_load = Inr model) \<or> cache = Some (Some model))
        \<and> ((\<exists>e. model (feature_vector f) = Inl e) \<or> model (feature_vector f) = Inr [])
      \<longrightarrow> predict_quality joblib_load cache f = (Inr (lit ''Unknown''), Some (Some model)))
   \<and> (cache \<noteq> None \<or> joblib_load = Inl FileNotFoundError \<or> (\<exists>m. joblib_load = Inr m)
      \<longrightarrow> (\<exists>label. fst (predict_quality joblib_load cache f) = Inr label))"
  by (auto simp: predict_quality_def load_quality_model_def py_nth_def
      split: option.splits sum.splits py_exception.splits)

theorem predict_quality_fallbacks_witness:
  "predict_quality (Inl FileNotFoundError) None Map.empty = (Inr (lit ''Unknown''), Some None)
   \<and> predict_quality (Inr (\<lambda>df. Inr [lit ''High''])) (Some None) Map.empty
       = (Inr (lit ''Unknown''), Some None)
   \<and> predict_quality (Inr (\<lambda>df. Inl ValueError)) None Map.empty
       = (Inr (lit ''Unknown''), Some (Some (\<lambda>df. Inl ValueError)))
   \<and> (\<exists>label. fst (predict_quality (Inr (\<lambda>df. Inr [lit ''High''])) None Map.empty) = Inr label)"
  using predict_quality_fallbacks
      [where cache = None and joblib_load = "Inl FileNotFoundError" and f = Map.empty]
    predict_quality_fallbacks
      [where cache = "Some None" and joblib_load = "Inr (\<lambda>df. Inr [lit ''High''])"
         and f = Map.empty]
    predict_quality_fallbacks
      [where cache = None and joblib_load = "Inr (\<lambda>df. Inl ValueError)"
         and model = "\<lambda>df. Inl ValueError" and f = Map.empty]
    predict_quality_fallbacks
      [where cache = None and joblib_load = "Inr (\<lambda>df. Inr [lit ''High''])" and f = Map.empty]
  by simp

text \<open>
  Claim C2 as stated fails: a model file that is there and cannot be unpickled makes
  \<open>joblib.load\<close> raise an exception other than \<open>FileNotFoundError\<close>, which
  \<open>load_quality_model\<close> does not handle and \<open>predict_quality\<close> passes to its caller.
\<close>

theorem predict_quality_raises_on_unreadable_artifact:
  "fst (predict_quality (Inl (OtherException ''UnpicklingError'')) None Map.empty)
     = Inl (OtherException ''UnpicklingError'')"
  by (simp add: predict_quality_def load_quality_model_def)

end
